theory Spec2Isabelle
  imports Main "HOL-Library.Log_Nat"
begin

section \<open>GearGuard: maintenance requests, equipment and the preventive calendar\<close>

text \<open>
  A shallow embedding of \<^verbatim>\<open>maintenance/models.py\<close>, \<^verbatim>\<open>maintenance/views.py\<close>,
  \<^verbatim>\<open>maintenance/forms.py\<close>, \<^verbatim>\<open>maintenance/mixins.py\<close> and
  \<^verbatim>\<open>maintenance/decorators.py\<close>.

  \<^item> A model class is a record; only the columns that the modelled functions read or write
    are kept (\<^verbatim>\<open>created_at\<close>, \<^verbatim>\<open>updated_at\<close>, \<^verbatim>\<open>serial_number\<close>, ... are left out).
  \<^item> A \<^verbatim>\<open>CharField\<close> with choices stays a string: the views compare it with string
    literals and one of them receives it from the POST data.
  \<^item> A nullable column is an \<open>option\<close>.
  \<^item> A table is the list of its rows; a row carries its primary key.
  \<^item> A \<^verbatim>\<open>DateField\<close> value is its proleptic Gregorian ordinal (\<^verbatim>\<open>date.toordinal()\<close>), a
    \<^verbatim>\<open>DateTimeField\<close> value is a number of microseconds, so that adding
    \<^verbatim>\<open>timedelta(days=n)\<close> is adding \<open>n\<close> and the difference of two instants is a
    number of microseconds.
  \<^item> \<^verbatim>\<open>timezone.now()\<close> and \<^verbatim>\<open>timezone.now().date()\<close> are the parameters \<open>now\<close> and
    \<open>today\<close> of an operation: the clock is read as one instant per operation.
\<close>

subsection \<open>Dates\<close>

type_synonym date = int
type_synonym datetime = int

definition is_leap :: "int \<Rightarrow> bool" where
  "is_leap year = (year mod 4 = 0 \<and> (year mod 100 \<noteq> 0 \<or> year mod 400 = 0))"

definition days_before_year :: "int \<Rightarrow> int" where
  "days_before_year year =
     (let y = year - 1 in y * 365 + y div 4 - y div 100 + y div 400)"

definition days_in_month :: "int \<Rightarrow> int \<Rightarrow> int" where
  "days_in_month year month =
     (if month = 2 \<and> is_leap year then 29
      else [31, 28, 31, 30, 31, 30, 31, 31, 30, 31, 30, 31] ! nat (month - 1))"

definition days_before_month :: "int \<Rightarrow> int \<Rightarrow> int" where
  "days_before_month year month =
     [0, 31, 59, 90, 120, 151, 181, 212, 243, 273, 304, 334] ! nat (month - 1)
       + (if month > 2 \<and> is_leap year then 1 else 0)"

text \<open>\<^verbatim>\<open>datetime(year, month, day).date()\<close>: a \<^verbatim>\<open>ValueError\<close> outside the calendar.\<close>

definition ymd :: "int \<Rightarrow> int \<Rightarrow> int \<Rightarrow> date option" where
  "ymd year month day =
     (if 1 \<le> year \<and> year \<le> 9999 \<and> 1 \<le> month \<and> month \<le> 12
         \<and> 1 \<le> day \<and> day \<le> days_in_month year month
      then Some (days_before_year year + days_before_month year month + day)
      else None)"


subsection \<open>Python's float arithmetic for the duration\<close>

text \<open>
  The views compute \<^verbatim>\<open>round(time_diff.total_seconds() / 3600, 2)\<close> in binary floating
  point. A finite double is the rational it denotes. \<open>fl\<close> rounds a rational to the nearest
  double, ties to even (the exponent range is not modelled: the quotients of the views
  are far from overflow and from the subnormal numbers).
\<close>

definition pow2 :: "int \<Rightarrow> rat" where
  "pow2 e = (if 0 \<le> e then 2 ^ nat e else 1 / 2 ^ nat (- e))"

definition round_half_even :: "rat \<Rightarrow> int" where
  "round_half_even q =
     (let f = \<lfloor>q\<rfloor>; r = q - of_int f
      in if r < 1 / 2 then f
         else if 1 / 2 < r then f + 1
         else if even f then f else f + 1)"

definition binary_exponent :: "rat \<Rightarrow> int" where
  "binary_exponent q =
     (let (a, b) = quotient_of q; e = bitlen a - bitlen b
      in if pow2 e \<le> q then e else e - 1)"

definition fl :: "rat \<Rightarrow> rat" where
  "fl q =
     (if q = 0 then 0
      else let ulp = pow2 (binary_exponent \<bar>q\<bar> - 52)
           in sgn q * of_int (round_half_even (\<bar>q\<bar> / ulp)) * ulp)"

text \<open>
  \<^verbatim>\<open>timedelta.total_seconds()\<close> divides the microseconds by \<open>10\<^sup>6\<close>; \<^verbatim>\<open>round(x, 2)\<close>
  rounds the exact value of the double \<open>x\<close> to two decimals, ties to even. The result is
  kept as the decimal with two places that the \<^verbatim>\<open>DecimalField(decimal_places=2)\<close> stores.
\<close>

definition total_seconds :: "int \<Rightarrow> rat" where
  "total_seconds time_diff = fl (of_int time_diff / 1000000)"

definition round2 :: "rat \<Rightarrow> rat" where
  "round2 x = of_int (round_half_even (x * 100)) / 100"

definition rounded_hours :: "datetime \<Rightarrow> datetime \<Rightarrow> rat" where
  "rounded_hours start_time end_time =
     (let time_diff = end_time - start_time;
          duration_hours = fl (total_seconds time_diff / 3600)
      in round2 duration_hours)"

subsection \<open>The tables\<close>

text \<open>\<^verbatim>\<open>class Equipment(models.Model)\<close>.\<close>

record equipment =
  equipment_pk :: nat
  equipment_name :: string
  default_technician :: "nat option"
  purchase_date :: "date option"
  maintenance_interval_days :: "int option"
  is_scrapped :: bool
  scrap_date :: "date option"
  scrap_reason :: "string option"

text \<open>
  \<^verbatim>\<open>class MaintenanceRequest(models.Model)\<close>. \<open>equipment_id\<close> is the column of the
  foreign key \<^verbatim>\<open>equipment\<close>; \<open>pk\<close> is \<open>None\<close> for an instance that was never saved.
\<close>

record maintenance_request =
  pk :: "nat option"
  subject :: string
  request_type :: string
  stage :: string
  priority :: string
  equipment_id :: nat
  maintenance_team :: "nat option"
  assigned_technician :: "nat option"
  scheduled_date :: "date option"
  completed_date :: "date option"
  duration_hours :: "rat option"
  actual_start_time :: "datetime option"
  actual_end_time :: "datetime option"
  is_overdue :: bool
  technician_notes :: "string option"
  resolution_summary :: "string option"

text \<open>
  The database: the two tables above, the \<^verbatim>\<open>team_members\<close> table as (team, user) pairs
  and the \<^verbatim>\<open>UserProfile\<close> table as (user, role) pairs.
\<close>

record database =
  maintenance_requests :: "maintenance_request list"
  equipment_table :: "equipment list"
  team_members :: "(nat \<times> nat) list"
  user_profiles :: "(nat \<times> string) list"

datatype exn =
  RelatedObjectDoesNotExist | ValueError | TypeError | OverflowError | AttributeError

text \<open>\<^verbatim>\<open>request.user\<close>: the anonymous user, or an authenticated account.\<close>

datatype user = AnonymousUser | User nat

definition STAGE_CHOICES :: "(string \<times> string) list" where
  "STAGE_CHOICES =
     [(''New'', ''New''), (''In Progress'', ''In Progress''),
      (''Repaired'', ''Repaired''), (''Scrap'', ''Scrap'')]"

definition PRIORITY_CHOICES :: "(string \<times> string) list" where
  "PRIORITY_CHOICES =
     [(''Low'', ''Low''), (''Medium'', ''Medium''), (''High'', ''High''),
      (''Critical'', ''Critical'')]"

text \<open>Python's truth value of an optional string, an optional number, an optional key.\<close>

definition truthy_str :: "string option \<Rightarrow> bool" where
  "truthy_str s = (case s of None \<Rightarrow> False | Some t \<Rightarrow> t \<noteq> [])"

definition truthy_int :: "int option \<Rightarrow> bool" where
  "truthy_int n = (case n of None \<Rightarrow> False | Some k \<Rightarrow> k \<noteq> 0)"

definition truthy_rat :: "rat option \<Rightarrow> bool" where
  "truthy_rat n = (case n of None \<Rightarrow> False | Some k \<Rightarrow> k \<noteq> 0)"

definition truthy_pk :: "nat option \<Rightarrow> bool" where
  "truthy_pk n = (case n of None \<Rightarrow> False | Some k \<Rightarrow> k \<noteq> 0)"

text \<open>\<^verbatim>\<open>get_object_or_404(MaintenanceRequest, pk=pk)\<close>; \<open>None\<close> is the 404.\<close>

definition get_request :: "database \<Rightarrow> nat \<Rightarrow> maintenance_request option" where
  "get_request db k = find (\<lambda>r. pk r = Some k) (maintenance_requests db)"

text \<open>The related object \<^verbatim>\<open>self.equipment\<close> of a request.\<close>

definition get_equipment :: "database \<Rightarrow> nat \<Rightarrow> equipment option" where
  "get_equipment db k = find (\<lambda>e. equipment_pk e = k) (equipment_table db)"

text \<open>
  \<^verbatim>\<open>super().save()\<close>: an instance with a key updates its row (and is inserted when no row
  has the key); an instance without a key is inserted under a key the database chooses,
  here one more than the largest key of the table.
\<close>

definition next_pk :: "maintenance_request list \<Rightarrow> nat" where
  "next_pk rows = Suc (fold max (map (\<lambda>r. case pk r of None \<Rightarrow> 0 | Some k \<Rightarrow> k) rows) 0)"

definition write_request ::
  "maintenance_request \<Rightarrow> database \<Rightarrow> maintenance_request \<times> database" where
  "write_request self db =
     (let rows = maintenance_requests db in
      case pk self of
        None \<Rightarrow>
          (let self' = self\<lparr>pk := Some (next_pk rows)\<rparr>
           in (self', db\<lparr>maintenance_requests := rows @ [self']\<rparr>))
      | Some k \<Rightarrow>
          if list_ex (\<lambda>r. pk r = Some k) rows
          then (self, db\<lparr>maintenance_requests :=
                  map (\<lambda>r. if pk r = Some k then self else r) rows\<rparr>)
          else (self, db\<lparr>maintenance_requests := rows @ [self]\<rparr>))"

text \<open>\<^verbatim>\<open>self.equipment.save()\<close>.\<close>

definition write_equipment :: "equipment \<Rightarrow> database \<Rightarrow> database" where
  "write_equipment e db =
     (let rows = equipment_table db in
      if list_ex (\<lambda>r. equipment_pk r = equipment_pk e) rows
      then db\<lparr>equipment_table := map (\<lambda>r. if equipment_pk r = equipment_pk e then e else r) rows\<rparr>
      else db\<lparr>equipment_table := rows @ [e]\<rparr>)"

subsection \<open>\<^verbatim>\<open>MaintenanceRequest.save\<close>\<close>

definition save ::
  "date \<Rightarrow> maintenance_request \<Rightarrow> database \<Rightarrow> exn + maintenance_request \<times> database" where
  "save today self db =
     (let self1 =
        (case scheduled_date self of
           Some d \<Rightarrow>
             if stage self \<notin> set [''Repaired'', ''Scrap'']
             then self\<lparr>is_overdue := d < today\<rparr>
             else self\<lparr>is_overdue := False\<rparr>
         | None \<Rightarrow> self\<lparr>is_overdue := False\<rparr>)
      in
      if stage self1 = ''Scrap'' then
        (case get_equipment db (equipment_id self1) of
           None \<Rightarrow> Inl RelatedObjectDoesNotExist
         | Some eq \<Rightarrow>
             if \<not> is_scrapped eq then
               (let eq1 = eq\<lparr>is_scrapped := True, scrap_date := Some today\<rparr>;
                    eq2 = (if truthy_str (resolution_summary self1)
                           then eq1\<lparr>scrap_reason := resolution_summary self1\<rparr>
                           else eq1)
                in Inr (write_request self1 (write_equipment eq2 db)))
             else Inr (write_request self1 db))
      else Inr (write_request self1 db))"

subsection \<open>The function views of \<^verbatim>\<open>views.py\<close>\<close>

datatype response =
    JsonResponse nat string
  | Http404
  | PermissionDenied string
  | LoginRedirect
  | FormInvalid string
  | SuccessRedirect
  | ServerError exn

text \<open>\<^verbatim>\<open>MaintenanceTeam.objects.filter(members__user=user).distinct()\<close>.\<close>

definition technician_teams :: "database \<Rightarrow> nat \<Rightarrow> nat list" where
  "technician_teams db uid = remdups (map fst (filter (\<lambda>(t, u). u = uid) (team_members db)))"

definition team_in :: "nat option \<Rightarrow> nat list \<Rightarrow> bool" where
  "team_in team teams = (case team of None \<Rightarrow> False | Some t \<Rightarrow> t \<in> set teams)"

definition saved :: "string \<Rightarrow> database \<Rightarrow> exn + maintenance_request \<times> database \<Rightarrow> response \<times> database" where
  "saved message db res =
     (case res of Inl e \<Rightarrow> (ServerError e, db) | Inr (_, db') \<Rightarrow> (JsonResponse 200 message, db'))"

definition start_task :: "user \<Rightarrow> nat \<Rightarrow> datetime \<Rightarrow> date \<Rightarrow> database \<Rightarrow> response \<times> database" where
  "start_task u k now today db =
     (case u of
        AnonymousUser \<Rightarrow> (JsonResponse 401 ''Authentication required'', db)
      | User uid \<Rightarrow>
          (case get_request db k of
             None \<Rightarrow> (Http404, db)
           | Some request_obj \<Rightarrow>
               if assigned_technician request_obj \<noteq> Some uid
                  \<and> \<not> team_in (maintenance_team request_obj) (technician_teams db uid)
               then (JsonResponse 403 ''Permission denied'', db)
               else
                 (let r1 = request_obj\<lparr>stage := ''In Progress'', actual_start_time := Some now\<rparr>;
                      r2 = (if assigned_technician r1 = None
                            then r1\<lparr>assigned_technician := Some uid\<rparr> else r1)
                  in saved ''Task started successfully'' db (save today r2 db))))"

definition end_task :: "user \<Rightarrow> nat \<Rightarrow> datetime \<Rightarrow> date \<Rightarrow> database \<Rightarrow> response \<times> database" where
  "end_task u k now today db =
     (case u of
        AnonymousUser \<Rightarrow> (JsonResponse 401 ''Authentication required'', db)
      | User uid \<Rightarrow>
          (case get_request db k of
             None \<Rightarrow> (Http404, db)
           | Some request_obj \<Rightarrow>
               if assigned_technician request_obj \<noteq> Some uid
               then (JsonResponse 403 ''Only assigned technician can end this task'', db)
               else
                 (case actual_start_time request_obj of
                    None \<Rightarrow> (JsonResponse 400 ''Task must be started before it can be ended'', db)
                  | Some start_time \<Rightarrow>
                      (let r1 = request_obj\<lparr>actual_end_time := Some now\<rparr>;
                           r2 = r1\<lparr>duration_hours := Some (rounded_hours start_time now)\<rparr>;
                           r3 = r2\<lparr>stage := ''Repaired'', completed_date := Some today\<rparr>
                       in saved ''Task completed successfully'' db (save today r3 db)))))"

text \<open>
  \<^verbatim>\<open>update_request_stage\<close>, the Kanban drag and drop. \<open>new_stage\<close> is
  \<^verbatim>\<open>request.POST.get('stage')\<close>, \<open>None\<close> when the parameter is absent.
\<close>

definition stage_timestamps ::
  "string \<Rightarrow> datetime \<Rightarrow> date \<Rightarrow> maintenance_request \<Rightarrow> maintenance_request" where
  "stage_timestamps new_stage now today request_obj =
     (if new_stage = ''In Progress'' \<and> actual_start_time request_obj = None
      then request_obj\<lparr>actual_start_time := Some now\<rparr>
      else if new_stage \<in> set [''Repaired'', ''Scrap''] then
        (let r1 = (if actual_end_time request_obj = None
                   then request_obj\<lparr>actual_end_time := Some now\<rparr> else request_obj);
             r2 = (case (actual_start_time r1, actual_end_time r1) of
                     (Some s, Some e) \<Rightarrow>
                       if \<not> truthy_rat (duration_hours r1)
                       then r1\<lparr>duration_hours := Some (rounded_hours s e)\<rparr> else r1
                   | _ \<Rightarrow> r1)
         in if completed_date r2 = None then r2\<lparr>completed_date := Some today\<rparr> else r2)
      else request_obj)"

definition update_request_stage ::
  "user \<Rightarrow> nat \<Rightarrow> string option \<Rightarrow> datetime \<Rightarrow> date \<Rightarrow> database \<Rightarrow> response \<times> database" where
  "update_request_stage u k new_stage now today db =
     (case u of
        AnonymousUser \<Rightarrow> (JsonResponse 401 ''Authentication required'', db)
      | User uid \<Rightarrow>
          (case get_request db k of
             None \<Rightarrow> (Http404, db)
           | Some request_obj \<Rightarrow>
               (case new_stage of
                  None \<Rightarrow> (JsonResponse 400 ''Invalid stage'', db)
                | Some st \<Rightarrow>
                    if st \<notin> set (map fst STAGE_CHOICES)
                    then (JsonResponse 400 ''Invalid stage'', db)
                    else
                      (let r1 = request_obj\<lparr>stage := st\<rparr>;
                           r2 = stage_timestamps st now today r1
                       in saved (''Request moved to '' @ st) db (save today r2 db)))))"

subsection \<open>The access gates of \<^verbatim>\<open>mixins.py\<close> and \<^verbatim>\<open>decorators.py\<close>\<close>

text \<open>
  \<^verbatim>\<open>request.user.profile.role\<close>: \<open>None\<close> when the account has no profile row (the access
  raises \<^verbatim>\<open>RelatedObjectDoesNotExist\<close>, which the gates catch as an \<^verbatim>\<open>AttributeError\<close>).
\<close>

definition profile_role :: "database \<Rightarrow> nat \<Rightarrow> string option" where
  "profile_role db uid = map_of (user_profiles db) uid"

definition profile_not_found :: string where
  "profile_not_found = ''User profile not found. Please contact administrator.''"

text \<open>
  A \<^verbatim>\<open>dispatch\<close> answers \<open>Some response\<close> when it refuses the request and \<open>None\<close> when it
  goes on to \<^verbatim>\<open>super().dispatch\<close>. \<^verbatim>\<open>handle_no_permission()\<close> sends an anonymous user to
  the login page.
\<close>

definition role_mixin_dispatch ::
  "string list \<Rightarrow> string \<Rightarrow> user \<Rightarrow> database \<Rightarrow> response option" where
  "role_mixin_dispatch roles message u db =
     (case u of
        AnonymousUser \<Rightarrow> Some LoginRedirect
      | User uid \<Rightarrow>
          (case profile_role db uid of
             None \<Rightarrow> Some (PermissionDenied profile_not_found)
           | Some role \<Rightarrow>
               if role \<notin> set roles then Some (PermissionDenied message) else None))"



definition TechnicianRequiredMixin_dispatch :: "user \<Rightarrow> database \<Rightarrow> response option" where
  "TechnicianRequiredMixin_dispatch =
     role_mixin_dispatch [''Technician''] ''Only technicians can access this page.''"


definition AdminOrManagerRequiredMixin_dispatch :: "user \<Rightarrow> database \<Rightarrow> response option" where
  "AdminOrManagerRequiredMixin_dispatch =
     role_mixin_dispatch [''Admin'', ''Manager'']
       ''Only administrators and managers can access this page.''"



subsection \<open>\<^verbatim>\<open>MaintenanceRequestUpdateView\<close> with \<^verbatim>\<open>MaintenanceRequestUpdateForm\<close>\<close>

text \<open>The posted fields of the form: \<^verbatim>\<open>assigned_technician\<close>, \<^verbatim>\<open>stage\<close>, \<^verbatim>\<open>priority\<close>.\<close>

record manager_form =
  mf_assigned_technician :: "nat option"
  mf_stage :: string
  mf_priority :: string

definition MaintenanceRequestUpdateForm_is_valid :: "database \<Rightarrow> manager_form \<Rightarrow> bool" where
  "MaintenanceRequestUpdateForm_is_valid db form =
     (mf_stage form \<in> set (map fst STAGE_CHOICES)
      \<and> mf_priority form \<in> set (map fst PRIORITY_CHOICES)
      \<and> (case mf_assigned_technician form of
            None \<Rightarrow> True
          | Some t \<Rightarrow> profile_role db t = Some ''Technician''))"

definition MaintenanceRequestUpdateView_form_valid ::
  "datetime \<Rightarrow> date \<Rightarrow> maintenance_request \<Rightarrow> maintenance_request" where
  "MaintenanceRequestUpdateView_form_valid now today request_obj =
     (if stage request_obj \<in> set [''Repaired'', ''Scrap''] then
        (let r1 = (if completed_date request_obj = None
                   then request_obj\<lparr>completed_date := Some today\<rparr> else request_obj);
             r2 = (if actual_end_time r1 = None
                   then r1\<lparr>actual_end_time := Some now\<rparr> else r1)
         in case (actual_start_time r2, actual_end_time r2) of
              (Some s, Some e) \<Rightarrow>
                if \<not> truthy_rat (duration_hours r2)
                then r2\<lparr>duration_hours := Some (rounded_hours s e)\<rparr> else r2
            | _ \<Rightarrow> r2)
      else if stage request_obj = ''In Progress'' \<and> actual_start_time request_obj = None
      then request_obj\<lparr>actual_start_time := Some now\<rparr>
      else request_obj)"

definition MaintenanceRequestUpdateView_post ::
  "user \<Rightarrow> nat \<Rightarrow> manager_form \<Rightarrow> datetime \<Rightarrow> date \<Rightarrow> database \<Rightarrow> response \<times> database" where
  "MaintenanceRequestUpdateView_post u k form now today db =
     (case AdminOrManagerRequiredMixin_dispatch u db of
        Some refusal \<Rightarrow> (refusal, db)
      | None \<Rightarrow>
          (case get_request db k of
             None \<Rightarrow> (Http404, db)
           | Some obj \<Rightarrow>
               if \<not> MaintenanceRequestUpdateForm_is_valid db form
               then (FormInvalid ''invalid choice'', db)
               else
                 (let instance = obj\<lparr>assigned_technician := mf_assigned_technician form,
                                      stage := mf_stage form, priority := mf_priority form\<rparr>;
                      request_obj = MaintenanceRequestUpdateView_form_valid now today instance
                  in case save today request_obj db of
                       Inl e \<Rightarrow> (ServerError e, db)
                     | Inr (_, db') \<Rightarrow> (SuccessRedirect, db'))))"

subsection \<open>\<^verbatim>\<open>TechnicianRequestDetailView\<close> with \<^verbatim>\<open>TechnicianRequestUpdateForm\<close>\<close>

text \<open>
  The posted fields: \<^verbatim>\<open>stage\<close>, \<^verbatim>\<open>duration_hours\<close> (\<open>None\<close> when left empty),
  \<^verbatim>\<open>technician_notes\<close>, \<^verbatim>\<open>resolution_summary\<close> (the text as typed).
\<close>

record technician_form =
  tf_stage :: string
  tf_duration_hours :: "rat option"
  tf_technician_notes :: string
  tf_resolution_summary :: string

text \<open>\<^verbatim>\<open>TechnicianRequestUpdateForm.__init__\<close>: the choices of the \<^verbatim>\<open>stage\<close> field.\<close>

definition stage_choices :: "maintenance_request \<Rightarrow> (string \<times> string) list" where
  "stage_choices instance =
     (let current_stage = (if truthy_pk (pk instance) then stage instance else ''New'')
      in if current_stage = ''New'' then [(''New'', ''New''), (''In Progress'', ''In Progress'')]
         else if current_stage = ''In Progress''
         then [(''In Progress'', ''In Progress''), (''Repaired'', ''Repaired''),
               (''Scrap'', ''Scrap'')]
         else if current_stage = ''Repaired'' then [(''Repaired'', ''Repaired'')]
         else if current_stage = ''Scrap'' then [(''Scrap'', ''Scrap'')]
         else STAGE_CHOICES)"

text \<open>
  A text field of a form is cleaned by \<^verbatim>\<open>str.strip()\<close>. A character of a string is a code
  point below 256; among these Python's white space is \<open>0x09\<close>--\<open>0x0D\<close>, \<open>0x1C\<close>--\<open>0x20\<close>,
  \<open>0x85\<close> (next line) and \<open>0xA0\<close> (no-break space).
\<close>

definition is_space :: "char \<Rightarrow> bool" where
  "is_space c =
     (let n = of_char c :: nat
      in (9 \<le> n \<and> n \<le> 13) \<or> (28 \<le> n \<and> n \<le> 32) \<or> n = 133 \<or> n = 160)"

definition strip :: "string \<Rightarrow> string" where
  "strip s = rev (dropWhile is_space (rev (dropWhile is_space s)))"

text \<open>
  \<^verbatim>\<open>DecimalField(max_digits=10, decimal_places=2)\<close> with \<^verbatim>\<open>MinValueValidator(0)\<close>.
\<close>

definition valid_duration :: "rat option \<Rightarrow> bool" where
  "valid_duration d =
     (case d of
        None \<Rightarrow> True
      | Some q \<Rightarrow> 0 \<le> q \<and> q < 100000000 \<and> snd (quotient_of (q * 100)) = 1)"

text \<open>\<^verbatim>\<open>TechnicianRequestUpdateForm.clean\<close> on the cleaned data: \<open>Some\<close> is the error.\<close>

definition clean :: "string \<Rightarrow> string \<Rightarrow> string option" where
  "clean stage' resolution_summary' =
     (if stage' = ''Repaired'' \<and> \<not> truthy_str (Some resolution_summary')
      then Some ''Resolution summary is required when marking request as Repaired.''
      else None)"

definition TechnicianRequestUpdateForm_errors ::
  "maintenance_request \<Rightarrow> technician_form \<Rightarrow> string option" where
  "TechnicianRequestUpdateForm_errors instance form =
     (if tf_stage form \<notin> set (map fst (stage_choices instance))
      then Some ''Select a valid choice.''
      else if \<not> valid_duration (tf_duration_hours form)
      then Some ''Enter a valid duration.''
      else clean (tf_stage form) (strip (tf_resolution_summary form)))"

definition TechnicianRequestDetailView_form_valid ::
  "nat \<Rightarrow> datetime \<Rightarrow> date \<Rightarrow> maintenance_request \<Rightarrow> maintenance_request" where
  "TechnicianRequestDetailView_form_valid uid now today request_obj =
     (let r1 = (if stage request_obj = ''Repaired'' \<and> completed_date request_obj = None
                then request_obj\<lparr>completed_date := Some today\<rparr> else request_obj);
          r2 = (if stage r1 = ''In Progress'' \<and> actual_start_time r1 = None
                then r1\<lparr>actual_start_time := Some now\<rparr> else r1);
          r3 = (if stage r2 \<in> set [''Repaired'', ''Scrap''] \<and> actual_end_time r2 = None
                then (let r = r2\<lparr>actual_end_time := Some now\<rparr>
                      in case actual_start_time r of
                           Some s \<Rightarrow> r\<lparr>duration_hours := Some (rounded_hours s now)\<rparr>
                         | None \<Rightarrow> r)
                else r2)
      in if assigned_technician r3 = None then r3\<lparr>assigned_technician := Some uid\<rparr> else r3)"

text \<open>
  The POST of the view. Its own \<^verbatim>\<open>dispatch\<close> runs first: it fetches the object from the
  queryset of the requests assigned to the user or to one of the user's teams (the
  queryset cannot be built for the anonymous user: a \<^verbatim>\<open>TypeError\<close>), repeats the access
  check, and only then reaches the dispatch of \<^verbatim>\<open>TechnicianRequiredMixin\<close>.
\<close>

definition TechnicianRequestDetailView_post ::
  "user \<Rightarrow> nat \<Rightarrow> technician_form \<Rightarrow> datetime \<Rightarrow> date \<Rightarrow> database \<Rightarrow> response \<times> database" where
  "TechnicianRequestDetailView_post u k form now today db =
     (case u of
        AnonymousUser \<Rightarrow> (ServerError TypeError, db)
      | User uid \<Rightarrow>
          (case get_request db k of
             None \<Rightarrow> (Http404, db)
           | Some obj \<Rightarrow>
               if assigned_technician obj \<noteq> Some uid
                  \<and> \<not> team_in (maintenance_team obj) (technician_teams db uid)
               then (Http404, db)
               else
                 (case TechnicianRequiredMixin_dispatch u db of
                    Some refusal \<Rightarrow> (refusal, db)
                  | None \<Rightarrow>
                      (case TechnicianRequestUpdateForm_errors obj form of
                         Some e \<Rightarrow> (FormInvalid e, db)
                       | None \<Rightarrow>
                           (let instance = obj\<lparr>stage := tf_stage form,
                                  duration_hours := tf_duration_hours form,
                                  technician_notes := Some (strip (tf_technician_notes form)),
                                  resolution_summary :=
                                    Some (strip (tf_resolution_summary form))\<rparr>;
                                request_obj =
                                  TechnicianRequestDetailView_form_valid uid now today instance
                            in case save today request_obj db of
                                 Inl e \<Rightarrow> (ServerError e, db)
                               | Inr (_, db') \<Rightarrow> (SuccessRedirect, db'))))))"

subsection \<open>The rule of the overdue flag, and sample rows\<close>

text \<open>The rule that the specification gives for \<^verbatim>\<open>is_overdue\<close>, in its own words.\<close>

definition overdue_rule :: "date \<Rightarrow> maintenance_request \<Rightarrow> bool" where
  "overdue_rule today self =
     (case scheduled_date self of
        Some d \<Rightarrow> stage self \<noteq> ''Repaired'' \<and> stage self \<noteq> ''Scrap'' \<and> d < today
      | None \<Rightarrow> False)"

text \<open>
  Sample rows for the closed instances below: a lathe bought on 2023-01-15 (ordinal
  738535) with a 90 day interval, and a request against it.
\<close>

definition sample_equipment :: equipment where
  "sample_equipment =
     \<lparr>equipment_pk = 1, equipment_name = ''Lathe'', default_technician = None,
      purchase_date = Some 738535, maintenance_interval_days = Some 90,
      is_scrapped = False, scrap_date = None, scrap_reason = None\<rparr>"

definition sample_request :: maintenance_request where
  "sample_request =
     \<lparr>pk = Some 1, subject = ''Replace belt'', request_type = ''Corrective'',
      stage = ''New'', priority = ''Medium'', equipment_id = 1, maintenance_team = Some 1,
      assigned_technician = Some 7, scheduled_date = Some 738600, completed_date = None,
      duration_hours = None, actual_start_time = None, actual_end_time = None,
      is_overdue = False, technician_notes = None, resolution_summary = None\<rparr>"

definition sample_db :: database where
  "sample_db =
     \<lparr>maintenance_requests = [sample_request], equipment_table = [sample_equipment],
      team_members = [(1, 7)], user_profiles = [(7, ''Technician''), (3, ''Manager'')]\<rparr>"

lemmas sample_defs = sample_equipment_def sample_request_def sample_db_def


text \<open>
  The equipment row that the scrap cascade of \<^verbatim>\<open>save\<close> writes: scrapped, dated today,
  with the resolution summary of the request as the reason when the request has one.
\<close>

definition scrapped_by :: "date \<Rightarrow> maintenance_request \<Rightarrow> equipment \<Rightarrow> equipment" where
  "scrapped_by today self eq =
     eq\<lparr>is_scrapped := True, scrap_date := Some today,
        scrap_reason := (if truthy_str (resolution_summary self)
                         then resolution_summary self else scrap_reason eq)\<rparr>"

text \<open>The sample request, in stage Scrap with a resolution summary.\<close>

definition sample_scrap :: maintenance_request where
  "sample_scrap = sample_request\<lparr>stage := ''Scrap'', resolution_summary := Some ''worn out''\<rparr>"


text \<open>
  The sample request once its technician has started it, alone in the sample database, and
  the same with a duration of five hours entered by hand.
\<close>

definition sample_started :: maintenance_request where
  "sample_started = sample_request\<lparr>stage := ''In Progress'', actual_start_time := Some 1000000\<rparr>"

definition sample_db_started :: database where
  "sample_db_started = sample_db\<lparr>maintenance_requests := [sample_started]\<rparr>"

definition sample_db_timed :: database where
  "sample_db_timed = sample_db\<lparr>maintenance_requests := [sample_started\<lparr>duration_hours := Some 5\<rparr>]\<rparr>"




subsection \<open>\<^verbatim>\<open>Equipment.get_next_maintenance_date\<close>\<close>

text \<open>
  \<^verbatim>\<open>d + timedelta(days=n)\<close>: an \<^verbatim>\<open>OverflowError\<close> when the result is not a date, that is
  outside \<^verbatim>\<open>date.min\<close> .. \<^verbatim>\<open>date.max\<close> (the ordinals 1 .. 3652059).
\<close>

definition add_days :: "date \<Rightarrow> int \<Rightarrow> exn + date" where
  "add_days d n = (if 1 \<le> d + n \<and> d + n \<le> 3652059 then Inr (d + n) else Inl OverflowError)"

text \<open>
  \<^verbatim>\<open>order_by('-completed_date', '-actual_end_time')\<close>. Where a descending order puts the
  rows whose column is \<^verbatim>\<open>NULL\<close> is the database's choice (first in PostgreSQL, which
  \<^verbatim>\<open>database.py\<close> sets up; last in SQLite); the settings module is not among the sources,
  so the choice is the parameter \<open>nulls_first\<close>. \<open>sorts_before nulls_first a b\<close>: the value
  \<open>a\<close> comes strictly before \<open>b\<close> in descending order.
\<close>

definition sorts_before :: "bool \<Rightarrow> int option \<Rightarrow> int option \<Rightarrow> bool" where
  "sorts_before nulls_first a b =
     (case a of
        None \<Rightarrow> (case b of None \<Rightarrow> False | Some y \<Rightarrow> nulls_first)
      | Some x \<Rightarrow> (case b of None \<Rightarrow> \<not> nulls_first | Some y \<Rightarrow> y < x))"

definition completed_before :: "bool \<Rightarrow> maintenance_request \<Rightarrow> maintenance_request \<Rightarrow> bool" where
  "completed_before nulls_first r q =
     (sorts_before nulls_first (completed_date r) (completed_date q)
      \<or> (completed_date r = completed_date q
          \<and> sorts_before nulls_first (actual_end_time r) (actual_end_time q)))"

text \<open>
  \<^verbatim>\<open>QuerySet.first()\<close> of an ordered query: a row that no other row comes strictly
  before, \<open>None\<close> when there is no row. Of several such rows the one that is first in the
  table is taken.
\<close>

fun first_by :: "('a \<Rightarrow> 'a \<Rightarrow> bool) \<Rightarrow> 'a list \<Rightarrow> 'a option" where
  "first_by before [] = None"
| "first_by before (x # xs) =
     (case first_by before xs of
        None \<Rightarrow> Some x
      | Some y \<Rightarrow> if before y x then Some y else Some x)"

definition completed_preventive :: "database \<Rightarrow> equipment \<Rightarrow> maintenance_request list" where
  "completed_preventive db self =
     filter (\<lambda>r. equipment_id r = equipment_pk self \<and> request_type r = ''Preventive''
                 \<and> stage r = ''Repaired'')
       (maintenance_requests db)"

definition get_next_maintenance_date ::
  "bool \<Rightarrow> date \<Rightarrow> database \<Rightarrow> equipment \<Rightarrow> exn + date option" where
  "get_next_maintenance_date nulls_first today db self =
     (case maintenance_interval_days self of
        None \<Rightarrow> Inr None
      | Some interval \<Rightarrow>
          if interval = 0 then Inr None
          else
            (let last_preventive =
                   first_by (completed_before nulls_first) (completed_preventive db self);
                 base_date = (case purchase_date self of Some p \<Rightarrow> p | None \<Rightarrow> today)
             in case (case last_preventive of None \<Rightarrow> None | Some r \<Rightarrow> completed_date r) of
                  Some d \<Rightarrow> map_sum id Some (add_days d interval)
                | None \<Rightarrow> map_sum id Some (add_days base_date interval)))"

text \<open>The sample lathe with an interval of minus five days.\<close>

definition sample_db_negative :: database where
  "sample_db_negative =
     sample_db\<lparr>equipment_table := [sample_equipment\<lparr>maintenance_interval_days := Some (- 5)\<rparr>]\<rparr>"

subsection \<open>\<^verbatim>\<open>PreventiveMaintenanceCalendarView.get_context_data\<close>\<close>






definition equipment_with_intervals :: "database \<Rightarrow> equipment list" where
  "equipment_with_intervals db =
     filter (\<lambda>e. (case maintenance_interval_days e of None \<Rightarrow> False | Some n \<Rightarrow> 0 < n)
                 \<and> \<not> is_scrapped e)
       (equipment_table db)"










subsection \<open>The calendar in the words of the specification\<close>













section \<open>Properties\<close>

subsection \<open>Rows written by \<^verbatim>\<open>save\<close>\<close>

lemma rounded_hours_one_hour: "rounded_hours 5000000 3605000000 = 1"
  by code_simp

lemma find_map_replace:
  "list_ex P rows \<Longrightarrow> P s \<Longrightarrow> find P (map (\<lambda>r. if P r then s else r) rows) = Some s"
  by (induction rows) auto

lemma find_append_new:
  "\<not> list_ex P rows \<Longrightarrow> P s \<Longrightarrow> find P (rows @ [s]) = Some s"
  by (induction rows) auto

lemma fold_max_ge: "(m::nat) \<le> fold max xs m"
proof (induction xs arbitrary: m)
  case Nil
  then show ?case by simp
next
  case (Cons a xs)
  have "m \<le> max a m" by simp
  also have "max a m \<le> fold max xs (max a m)" by (rule Cons.IH)
  finally show ?case by simp
qed

lemma fold_max_mem: "x \<in> set xs \<Longrightarrow> (x::nat) \<le> fold max xs m"
proof (induction xs arbitrary: m)
  case Nil
  then show ?case by simp
next
  case (Cons a xs)
  show ?case
  proof (cases "x = a")
    case True
    have "max a m \<le> fold max xs (max a m)" by (rule fold_max_ge)
    then show ?thesis using True by simp
  next
    case False
    then show ?thesis using Cons by simp
  qed
qed

lemma next_pk_fresh: "\<not> list_ex (\<lambda>r. pk r = Some (next_pk rows)) rows"
proof
  assume "list_ex (\<lambda>r. pk r = Some (next_pk rows)) rows"
  then obtain r where r: "r \<in> set rows" "pk r = Some (next_pk rows)"
    by (auto simp: list_ex_iff)
  then have "next_pk rows \<in> set (map (\<lambda>r. case pk r of None \<Rightarrow> 0 | Some k \<Rightarrow> k) rows)"
    by force
  then have "next_pk rows \<le> fold max (map (\<lambda>r. case pk r of None \<Rightarrow> 0 | Some k \<Rightarrow> k) rows) 0"
    by (rule fold_max_mem)
  then show False by (simp add: next_pk_def)
qed

lemma pk_update_same: "pk self = Some k \<Longrightarrow> self\<lparr>pk := Some k\<rparr> = self"
  by (cases self) simp

lemma write_request_result:
  assumes "write_request self db = (self', db')"
  shows "\<exists>k. self' = self\<lparr>pk := Some k\<rparr> \<and> get_request db' k = Some self'
           \<and> equipment_table db' = equipment_table db"
proof (cases "pk self")
  case None
  define k where "k = next_pk (maintenance_requests db)"
  have s: "self' = self\<lparr>pk := Some k\<rparr>"
    and d: "db' = db\<lparr>maintenance_requests := maintenance_requests db @ [self']\<rparr>"
    using assms None by (auto simp: write_request_def Let_def k_def)
  have "\<not> list_ex (\<lambda>r. pk r = Some k) (maintenance_requests db)"
    unfolding k_def by (rule next_pk_fresh)
  moreover have "pk self' = Some k" by (simp add: s)
  ultimately have "find (\<lambda>r. pk r = Some k) (maintenance_requests db @ [self']) = Some self'"
    by (rule find_append_new)
  then have "get_request db' k = Some self'" by (simp add: get_request_def d)
  moreover have "equipment_table db' = equipment_table db" by (simp add: d)
  ultimately show ?thesis using s by (intro exI[of _ k]) simp
next
  case (Some k)
  have s: "self' = self" using assms Some by (simp add: write_request_def Let_def split: if_splits)
  have p: "pk self = Some k" by (rule Some)
  have g: "get_request db' k = Some self \<and> equipment_table db' = equipment_table db"
  proof (cases "list_ex (\<lambda>r. pk r = Some k) (maintenance_requests db)")
    case True
    then have d: "db' = db\<lparr>maintenance_requests :=
                  map (\<lambda>r. if pk r = Some k then self else r) (maintenance_requests db)\<rparr>"
      using assms Some by (auto simp: write_request_def Let_def)
    from find_map_replace[of "\<lambda>r. pk r = Some k", OF True p]
    show ?thesis by (simp add: get_request_def d)
  next
    case False
    then have d: "db' = db\<lparr>maintenance_requests := maintenance_requests db @ [self]\<rparr>"
      using assms Some by (auto simp: write_request_def Let_def)
    from find_append_new[of "\<lambda>r. pk r = Some k", OF False p]
    show ?thesis by (simp add: get_request_def d)
  qed
  have u: "self\<lparr>pk := Some k\<rparr> = self" by (rule pk_update_same[OF p])
  show ?thesis unfolding s by (rule exI[of _ k]) (simp add: g u)
qed

lemma save_writes:
  assumes "save today self db = Inr (self', db')"
  shows "\<exists>db1. write_request (self\<lparr>is_overdue := overdue_rule today self\<rparr>) db1 = (self', db')"
proof -
  have e: "(case scheduled_date self of
           Some d \<Rightarrow>
             if stage self \<notin> set [''Repaired'', ''Scrap'']
             then self\<lparr>is_overdue := d < today\<rparr>
             else self\<lparr>is_overdue := False\<rparr>
         | None \<Rightarrow> self\<lparr>is_overdue := False\<rparr>) = self\<lparr>is_overdue := overdue_rule today self\<rparr>"
    by (simp add: overdue_rule_def split: option.splits)
  show ?thesis
    using assms unfolding save_def e Let_def
    by (simp split: option.splits if_splits) blast+
qed

lemma save_result:
  assumes "save today self db = Inr (self', db')"
  shows "\<exists>k. self' = self\<lparr>is_overdue := overdue_rule today self, pk := Some k\<rparr>
            \<and> get_request db' k = Some self'"
proof -
  from save_writes[OF assms] obtain db1 where
    "write_request (self\<lparr>is_overdue := overdue_rule today self\<rparr>) db1 = (self', db')" by blast
  from write_request_result[OF this] show ?thesis by blast
qed

text \<open>
  Claim C1. After any save, whatever the fields that were changed before it,
  \<^verbatim>\<open>is_overdue\<close> is true exactly when \<^verbatim>\<open>scheduled_date\<close> is set, the stage is neither
  Repaired nor Scrap, and \<^verbatim>\<open>scheduled_date\<close> is strictly before today; in particular a
  request saved in stage Scrap is not overdue. The row that is stored carries that flag.
\<close>

theorem save_recomputes_is_overdue:
  assumes "save today self db = Inr (self', db')"
  shows "(is_overdue self' \<longleftrightarrow>
            (\<exists>d. scheduled_date self = Some d \<and> d < today)
            \<and> stage self \<noteq> ''Repaired'' \<and> stage self \<noteq> ''Scrap'')
         \<and> (stage self = ''Scrap'' \<longrightarrow> \<not> is_overdue self')
         \<and> (\<exists>k. pk self' = Some k \<and> get_request db' k = Some self')"
proof -
  from save_result[OF assms] obtain k where
    a: "self' = self\<lparr>is_overdue := overdue_rule today self, pk := Some k\<rparr>"
    and b: "get_request db' k = Some self'" by blast
  have o: "is_overdue self' = overdue_rule today self" by (subst a) simp
  have p: "pk self' = Some k" by (subst a) simp
  show ?thesis using b p unfolding o overdue_rule_def by (auto split: option.splits)
qed


theorem save_recomputes_is_overdue_witness:
  "save 738601 sample_request sample_db =
     Inr (sample_request\<lparr>is_overdue := True\<rparr>,
          sample_db\<lparr>maintenance_requests := [sample_request\<lparr>is_overdue := True\<rparr>]\<rparr>)
   \<and> is_overdue (sample_request\<lparr>is_overdue := True\<rparr>)"
proof -
  have h: "save 738601 sample_request sample_db =
     Inr (sample_request\<lparr>is_overdue := True\<rparr>,
          sample_db\<lparr>maintenance_requests := [sample_request\<lparr>is_overdue := True\<rparr>]\<rparr>)"
    by (simp add: save_def write_request_def sample_defs Let_def)
  from save_recomputes_is_overdue[OF h] show ?thesis using h by simp
qed

subsection \<open>The stage choices of the technician form\<close>

text \<open>
  Claim C10. For a saved request edited through the technician update form, the stages
  offered depend on the current stage: from New only New and In Progress; from
  In Progress only In Progress, Repaired and Scrap; from Repaired only Repaired; from
  Scrap only Scrap. So the form never offers New to Scrap, nor a way out of a terminal
  stage.
\<close>

theorem technician_form_stage_choices:
  "map fst (stage_choices (r\<lparr>pk := Some (Suc k), stage := ''New''\<rparr>)) = [''New'', ''In Progress'']
   \<and> map fst (stage_choices (r\<lparr>pk := Some (Suc k), stage := ''In Progress''\<rparr>))
       = [''In Progress'', ''Repaired'', ''Scrap'']
   \<and> map fst (stage_choices (r\<lparr>pk := Some (Suc k), stage := ''Repaired''\<rparr>)) = [''Repaired'']
   \<and> map fst (stage_choices (r\<lparr>pk := Some (Suc k), stage := ''Scrap''\<rparr>)) = [''Scrap'']
   \<and> ''Scrap'' \<notin> set (map fst (stage_choices (r\<lparr>pk := Some (Suc k), stage := ''New''\<rparr>)))"
  by (simp add: stage_choices_def truthy_pk_def Let_def)


subsection \<open>The scrap cascade\<close>

lemma overdue_update:
  "(case scheduled_date self of
      Some d \<Rightarrow>
        if stage self \<notin> set [''Repaired'', ''Scrap'']
        then self\<lparr>is_overdue := d < today\<rparr>
        else self\<lparr>is_overdue := False\<rparr>
    | None \<Rightarrow> self\<lparr>is_overdue := False\<rparr>) = self\<lparr>is_overdue := overdue_rule today self\<rparr>"
  by (simp add: overdue_rule_def split: option.splits)

lemma save_scrap:
  assumes "stage self = ''Scrap''" and "get_equipment db (equipment_id self) = Some eq"
  shows "save today self db =
           Inr (write_request (self\<lparr>is_overdue := overdue_rule today self\<rparr>)
                  (if is_scrapped eq then db else write_equipment (scrapped_by today self eq) db))"
  using assms unfolding save_def overdue_update Let_def scrapped_by_def
  by simp

lemma get_equipment_pk: "get_equipment db k = Some eq \<Longrightarrow> equipment_pk eq = k"
  by (auto simp: get_equipment_def find_Some_iff)

lemma get_equipment_write:
  "get_equipment (write_equipment e db) (equipment_pk e) = Some e"
proof (cases "list_ex (\<lambda>r. equipment_pk r = equipment_pk e) (equipment_table db)")
  case True
  from find_map_replace[of "\<lambda>r. equipment_pk r = equipment_pk e", OF True]
  show ?thesis using True by (simp add: get_equipment_def write_equipment_def Let_def)
next
  case False
  from find_append_new[of "\<lambda>r. equipment_pk r = equipment_pk e", OF False]
  show ?thesis using False by (simp add: get_equipment_def write_equipment_def Let_def)
qed

lemma get_equipment_cong:
  "equipment_table db' = equipment_table db \<Longrightarrow> get_equipment db' k = get_equipment db k"
  by (simp add: get_equipment_def)

lemma save_scrap_result:
  assumes st: "stage self = ''Scrap''" and eq: "get_equipment db (equipment_id self) = Some eq"
  shows "\<exists>self' db'. save today self db = Inr (self', db')
           \<and> equipment_table db' =
               equipment_table (if is_scrapped eq then db
                                else write_equipment (scrapped_by today self eq) db)"
proof -
  obtain self' db' where w: "write_request (self\<lparr>is_overdue := overdue_rule today self\<rparr>)
       (if is_scrapped eq then db else write_equipment (scrapped_by today self eq) db) = (self', db')"
    by (cases "write_request (self\<lparr>is_overdue := overdue_rule today self\<rparr>)
       (if is_scrapped eq then db else write_equipment (scrapped_by today self eq) db)") blast
  from write_request_result[OF w] have "equipment_table db' =
      equipment_table (if is_scrapped eq then db
                       else write_equipment (scrapped_by today self eq) db)" by blast
  moreover have "save today self db = Inr (self', db')"
    unfolding save_scrap[OF st eq] w ..
  ultimately show ?thesis by blast
qed

lemma save_scrap_marks:
  assumes st: "stage self = ''Scrap''" and eq: "get_equipment db (equipment_id self) = Some eq"
    and s: "save today self db = Inr (self', db')"
  shows "\<exists>eq'. get_equipment db' (equipment_id self) = Some eq' \<and> is_scrapped eq'
            \<and> eq' = (if is_scrapped eq then eq else scrapped_by today self eq)"
proof -
  from save_scrap_result[OF st eq, of today] s have t: "equipment_table db' =
      equipment_table (if is_scrapped eq then db
                       else write_equipment (scrapped_by today self eq) db)" by simp
  have k: "equipment_pk eq = equipment_id self" by (rule get_equipment_pk[OF eq])
  show ?thesis
  proof (cases "is_scrapped eq")
    case True
    then have "get_equipment db' (equipment_id self) = Some eq"
      using t eq get_equipment_cong[of db' db] by simp
    then show ?thesis using True by simp
  next
    case False
    have p: "equipment_pk (scrapped_by today self eq) = equipment_id self"
      by (simp add: scrapped_by_def k)
    have "get_equipment db' (equipment_id self) =
            get_equipment (write_equipment (scrapped_by today self eq) db) (equipment_id self)"
      using t False by (simp add: get_equipment_def)
    also have "\<dots> = Some (scrapped_by today self eq)"
      using get_equipment_write[of "scrapped_by today self eq" db] unfolding p .
    finally show ?thesis using False by (simp add: scrapped_by_def)
  qed
qed

text \<open>
  Claim C5. Saving a request in stage Scrap whose equipment is not yet scrapped marks the
  equipment scrapped, dates the scrap today and copies the resolution summary, when the
  request has one, into the scrap reason. When the equipment is already scrapped the save
  leaves the equipment table as it is; so after the first such save, any later save of a
  Scrap request against the same equipment changes no equipment row.
\<close>

theorem scrap_cascade:
  assumes st: "stage self = ''Scrap''" and eq: "get_equipment db (equipment_id self) = Some eq"
  shows "\<exists>self' db'. save today self db = Inr (self', db')
     \<and> (\<not> is_scrapped eq \<longrightarrow>
          get_equipment db' (equipment_id self) = Some (scrapped_by today self eq))
     \<and> (is_scrapped eq \<longrightarrow> equipment_table db' = equipment_table db)
     \<and> (\<forall>today2 self2. stage self2 = ''Scrap'' \<and> equipment_id self2 = equipment_id self \<longrightarrow>
          (\<exists>self2' db2. save today2 self2 db' = Inr (self2', db2)
             \<and> equipment_table db2 = equipment_table db'))"
proof -
  from save_scrap_result[OF st eq, of today] obtain self' db' where
    s: "save today self db = Inr (self', db')"
    and t: "equipment_table db' =
               equipment_table (if is_scrapped eq then db
                                else write_equipment (scrapped_by today self eq) db)" by blast
  from save_scrap_marks[OF st eq s] obtain eq' where
    g: "get_equipment db' (equipment_id self) = Some eq'" and sc: "is_scrapped eq'"
    and v: "eq' = (if is_scrapped eq then eq else scrapped_by today self eq)" by blast
  have a: "\<not> is_scrapped eq \<longrightarrow>
          get_equipment db' (equipment_id self) = Some (scrapped_by today self eq)"
    using g v by simp
  have b: "is_scrapped eq \<longrightarrow> equipment_table db' = equipment_table db"
    using t by simp
  have c: "\<exists>self2' db2. save today2 self2 db' = Inr (self2', db2)
             \<and> equipment_table db2 = equipment_table db'"
    if "stage self2 = ''Scrap''" and "equipment_id self2 = equipment_id self" for today2 self2
  proof -
    have g2: "get_equipment db' (equipment_id self2) = Some eq'" using g that by simp
    from save_scrap_result[OF that(1) g2, of today2] sc show ?thesis by simp
  qed
  show ?thesis
    using s a b c by blast
qed

theorem scrap_cascade_witness:
  "stage sample_scrap = ''Scrap''
   \<and> get_equipment sample_db (equipment_id sample_scrap) = Some sample_equipment
   \<and> \<not> is_scrapped sample_equipment
   \<and> (\<exists>self' db'. save 738601 sample_scrap sample_db = Inr (self', db')
        \<and> get_equipment db' 1 =
            Some (sample_equipment\<lparr>is_scrapped := True, scrap_date := Some 738601,
                    scrap_reason := Some ''worn out''\<rparr>))"
proof -
  have st: "stage sample_scrap = ''Scrap''" by (simp add: sample_scrap_def)
  have eq: "get_equipment sample_db (equipment_id sample_scrap) = Some sample_equipment"
    by (simp add: sample_scrap_def sample_defs get_equipment_def)
  have n: "\<not> is_scrapped sample_equipment" by (simp add: sample_defs)
  have i: "equipment_id sample_scrap = 1" by (simp add: sample_scrap_def sample_defs)
  have v: "scrapped_by 738601 sample_scrap sample_equipment =
      sample_equipment\<lparr>is_scrapped := True, scrap_date := Some 738601,
                    scrap_reason := Some ''worn out''\<rparr>"
    by (simp add: scrapped_by_def sample_scrap_def truthy_str_def)
  from scrap_cascade[OF st eq, of 738601] n obtain self' db' where
    "save 738601 sample_scrap sample_db = Inr (self', db')"
    "get_equipment db' (equipment_id sample_scrap) = Some (scrapped_by 738601 sample_scrap sample_equipment)"
    by blast
  then show ?thesis using st eq n unfolding i v by blast
qed


subsection \<open>Starting a task\<close>

text \<open>
  Claim C6: a technician who starts a task sets \<open>actual_start_time\<close> to now only if it is
  unset. \<^verbatim>\<open>start_task\<close> does otherwise: on a request started at instant \<open>1000000\<close> it
  stores the instant of the call, \<open>5000000\<close>, where \<^verbatim>\<open>update_request_stage\<close> with the
  same request and stage \<^verbatim>\<open>In Progress\<close> keeps the first start.
\<close>

theorem start_task_overwrites_start_time:
  "map_option actual_start_time (get_request sample_db_started 1) = Some (Some 1000000)
   \<and> map_option actual_start_time
       (get_request (snd (start_task (User 7) 1 5000000 738601 sample_db_started)) 1)
       = Some (Some 5000000)
   \<and> map_option actual_start_time
       (get_request (snd (update_request_stage (User 7) 1 (Some ''In Progress'') 5000000 738601
                            sample_db_started)) 1)
       = Some (Some 1000000)"
  by code_simp

subsection \<open>Ending a task\<close>

text \<open>
  Claim C4: a duration entered by hand is not overwritten by a completion transition.
  \<^verbatim>\<open>end_task\<close> does overwrite it: on a request that holds a duration of five hours it
  stores the hour between start and end, where \<^verbatim>\<open>update_request_stage\<close> to
  \<^verbatim>\<open>Repaired\<close> keeps the five hours.
\<close>

theorem end_task_overwrites_duration:
  "map_option duration_hours (get_request sample_db_timed 1) = Some (Some 5)
   \<and> map_option duration_hours
       (get_request (snd (end_task (User 7) 1 3601000000 738601 sample_db_timed)) 1)
       = Some (Some 1)
   \<and> map_option duration_hours
       (get_request (snd (update_request_stage (User 7) 1 (Some ''Repaired'') 3601000000 738601
                            sample_db_timed)) 1)
       = Some (Some 5)"
  by code_simp

text \<open>
  Claim C2: a transition to \<^verbatim>\<open>Repaired\<close> with an empty resolution summary fails and
  nothing is stored. \<^verbatim>\<open>end_task\<close> stores the stage \<^verbatim>\<open>Repaired\<close> on a request with no
  resolution summary, where the technician's form refuses the same transition and leaves
  the database as it was.
\<close>

theorem end_task_repairs_without_summary:
  "map_option resolution_summary (get_request sample_db_started 1) = Some None
   \<and> map_option (\<lambda>r. (stage r, resolution_summary r))
       (get_request (snd (end_task (User 7) 1 3601000000 738601 sample_db_started)) 1)
       = Some (''Repaired'', None)
   \<and> TechnicianRequestDetailView_post (User 7) 1
        \<lparr>tf_stage = ''Repaired'', tf_duration_hours = None, tf_technician_notes = ''done'',
         tf_resolution_summary = ''  ''\<rparr> 3601000000 738601 sample_db_started
       = (FormInvalid ''Resolution summary is required when marking request as Repaired.'',
          sample_db_started)"
  by code_simp

subsection \<open>The access gates and the missing profile\<close>






subsection \<open>Duration and completion date on a transition to Repaired or Scrap\<close>












subsection \<open>The next maintenance date\<close>

text \<open>
  \<open>first_by\<close> on the completed preventive requests, when each carries a completion date,
  picks one whose completion date is the latest.
\<close>

lemma first_by_None: "first_by before xs = None \<longleftrightarrow> xs = []"
  by (induction xs) (auto split: option.splits)

lemma first_by_latest:
  assumes "list_all (\<lambda>r. completed_date r \<noteq> None) xs"
    and "first_by (completed_before nf) xs = Some y"
  shows "y \<in> set xs
         \<and> (\<forall>x \<in> set xs. \<forall>a b. completed_date x = Some a \<and> completed_date y = Some b \<longrightarrow> a \<le> b)"
  using assms
proof (induction xs arbitrary: y)
  case Nil
  then show ?case by simp
next
  case (Cons x xs)
  from Cons.prems(1) obtain c where c: "completed_date x = Some c"
    and rest: "list_all (\<lambda>r. completed_date r \<noteq> None) xs" by auto
  show ?case
  proof (cases "first_by (completed_before nf) xs")
    case None
    then have "xs = []" by (simp add: first_by_None)
    then show ?thesis using Cons.prems(2) by auto
  next
    case (Some y0)
    from Cons.IH[OF rest Some] have m: "y0 \<in> set xs"
      and le: "\<And>z a b. z \<in> set xs \<Longrightarrow> completed_date z = Some a \<Longrightarrow>
                 completed_date y0 = Some b \<Longrightarrow> a \<le> b"
      by blast+
    from m rest obtain c0 where c0: "completed_date y0 = Some c0"
      by (auto simp: list_all_iff)
    show ?thesis
    proof (cases "completed_before nf y0 x")
      case True
      then have y: "y = y0" using Cons.prems(2) Some by simp
      from True have "c \<le> c0"
        by (auto simp: completed_before_def sorts_before_def c c0)
      then show ?thesis using y m le c c0 by auto
    next
      case False
      then have y: "y = x" using Cons.prems(2) Some by simp
      from False have "c0 \<le> c"
        by (auto simp: completed_before_def sorts_before_def c c0)
      then show ?thesis using y le c c0 by fastforce
    qed
  qed
qed

text \<open>
  With an interval that is not zero: when the equipment has no completed preventive
  request the date is the purchase date, or today when there is none, plus the interval;
  when it has some and each carries a completion date, the date is the latest completion
  date plus the interval. Adding raises \<^verbatim>\<open>OverflowError\<close> beyond the last date.
\<close>

lemma get_next_maintenance_date_nonzero:
  assumes i: "maintenance_interval_days self = Some n" and n: "n \<noteq> 0"
  shows "(completed_preventive db self = [] \<longrightarrow>
            get_next_maintenance_date nf today db self =
              map_sum id Some
                (add_days (case purchase_date self of Some p \<Rightarrow> p | None \<Rightarrow> today) n))
         \<and> (completed_preventive db self \<noteq> []
             \<and> list_all (\<lambda>r. completed_date r \<noteq> None) (completed_preventive db self) \<longrightarrow>
            (\<exists>r d. r \<in> set (completed_preventive db self) \<and> completed_date r = Some d
                   \<and> (\<forall>q \<in> set (completed_preventive db self).
                         \<forall>a. completed_date q = Some a \<longrightarrow> a \<le> d)
                   \<and> get_next_maintenance_date nf today db self =
                       map_sum id Some (add_days d n)))"
proof (intro conjI impI)
  assume "completed_preventive db self = []"
  then show "get_next_maintenance_date nf today db self =
              map_sum id Some
                (add_days (case purchase_date self of Some p \<Rightarrow> p | None \<Rightarrow> today) n)"
    using i n by (simp add: get_next_maintenance_date_def Let_def)
next
  assume a: "completed_preventive db self \<noteq> []
             \<and> list_all (\<lambda>r. completed_date r \<noteq> None) (completed_preventive db self)"
  then obtain y where y: "first_by (completed_before nf) (completed_preventive db self) = Some y"
    using first_by_None[of "completed_before nf" "completed_preventive db self"] by fastforce
  from first_by_latest[OF _ y] a have m: "y \<in> set (completed_preventive db self)"
    and le: "\<And>x a b. x \<in> set (completed_preventive db self) \<Longrightarrow> completed_date x = Some a \<Longrightarrow>
                 completed_date y = Some b \<Longrightarrow> a \<le> b"
    by blast+
  from m a obtain d where d: "completed_date y = Some d" by (auto simp: list_all_iff)
  have g: "get_next_maintenance_date nf today db self = map_sum id Some (add_days d n)"
    using i n y d by (simp add: get_next_maintenance_date_def Let_def)
  show "\<exists>r d. r \<in> set (completed_preventive db self) \<and> completed_date r = Some d
                   \<and> (\<forall>q \<in> set (completed_preventive db self).
                         \<forall>a. completed_date q = Some a \<longrightarrow> a \<le> d)
                   \<and> get_next_maintenance_date nf today db self =
                       map_sum id Some (add_days d n)"
    using m d le g by blast
qed

text \<open>
  Claim C7: the next maintenance date is none when no positive interval is configured.
  \<^verbatim>\<open>get_next_maintenance_date\<close> tests the interval with \<^verbatim>\<open>not\<close>, which lets a negative
  interval through: for the lathe bought on 2023-01-15 with an interval of minus five days
  and no completed preventive request it answers 2023-01-10, where the claim says none.
  With the interval of 90 days it answers 2023-04-15, as the claim says. The calendar view
  asks for an interval above zero and leaves this equipment out.
\<close>

theorem negative_interval_gives_a_date:
  "get_next_maintenance_date nulls_first today sample_db_negative
       (sample_equipment\<lparr>maintenance_interval_days := Some (- 5)\<rparr>) = Inr (Some 738530)
   \<and> get_next_maintenance_date nulls_first today sample_db sample_equipment = Inr (Some 738625)
   \<and> ymd 2023 1 15 = Some 738535 \<and> ymd 2023 1 10 = Some 738530 \<and> ymd 2023 4 15 = Some 738625
   \<and> equipment_with_intervals sample_db_negative = []"
  by (simp add: get_next_maintenance_date_def completed_preventive_def add_days_def sample_defs
        sample_db_negative_def Let_def ymd_def days_before_year_def days_before_month_def
        days_in_month_def is_leap_def equipment_with_intervals_def)

subsection \<open>The preventive calendar\<close>

























end
